theory Spec2Isabelle
  imports Complex_Main
begin

section \<open>Position store (src/utils/file\_utils.py)\<close>

text \<open>
  The progress table of the SQLite database: one row per audiobook path, created by
  \<^verbatim>\<open>CREATE TABLE IF NOT EXISTS progress (audiobook_path TEXT PRIMARY KEY, position REAL)\<close>.
  The rows are kept in insertion order. Positions are Python floats, written as the reals
  they denote. The database file is outside the program, so what it allows is part of
  its state: whether it can be opened and read (\<open>connectable\<close>; \<^verbatim>\<open>sqlite3.connect\<close> itself
  is lazy, the first statement is what touches the file), whether a statement that
  writes to it goes through (\<open>writable\<close>), and whether the table is there yet
  (\<open>table_exists\<close>; while it is not, the rows do not count). The file does not change
  by itself in the middle of a call.
\<close>

datatype sqlite_error = OperationalError

record database =
  progress :: "(string \<times> real) list"
  table_exists :: bool
  connectable :: bool
  writable :: bool

text \<open>\<^verbatim>\<open>_get_connection\<close>: \<^verbatim>\<open>sqlite3.connect\<close>, then \<^verbatim>\<open>CREATE TABLE IF NOT EXISTS\<close>. The
  statement does nothing when the table is there; when it is not, it writes: it
  creates the table, empty, or fails on a database that refuses writes.\<close>

definition get_connection :: "database \<Rightarrow> sqlite_error + database" where
  "get_connection db =
     (if \<not> connectable db then Inl OperationalError
      else if table_exists db then Inr db
      else if writable db then Inr (db\<lparr>progress := [], table_exists := True\<rparr>)
      else Inl OperationalError)"

text \<open>\<^verbatim>\<open>REPLACE INTO progress (audiobook_path, position) VALUES (?, ?)\<close>: the rows that
  conflict on the primary key are deleted, then the new row is inserted.\<close>

definition replace_into :: "string \<Rightarrow> real \<Rightarrow> database \<Rightarrow> sqlite_error + database" where
  "replace_into k p conn =
     (if writable conn
      then Inr (conn\<lparr>progress := filter (\<lambda>r. fst r \<noteq> k) (progress conn) @ [(k, p)]\<rparr>)
      else Inl OperationalError)"

text \<open>\<^verbatim>\<open>SELECT position FROM progress WHERE audiobook_path = ?\<close> followed by
  \<^verbatim>\<open>fetchone()\<close>: the first matching row, if any. It runs on a connection that
  \<^verbatim>\<open>_get_connection\<close> has returned, so the file has been opened and read and the table is
  there: the statement goes through.\<close>

definition fetchone :: "string \<Rightarrow> database \<Rightarrow> (string \<times> real) option" where
  "fetchone k conn = find (\<lambda>r. fst r = k) (progress conn)"

text \<open>\<^verbatim>\<open>save_position\<close> and \<^verbatim>\<open>get_position\<close> of file\_utils.py. Neither has an exception
  handler, so an error of the database is the result of the call. A read that had to
  create the table leaves an empty table behind; the result of the read does not carry
  the new state of the file, and no later answer depends on it, since every call
  creates the table again when it is missing.\<close>

definition save_position :: "database \<Rightarrow> string \<Rightarrow> real \<Rightarrow> sqlite_error + database" where
  "save_position db audiobook_path position =
     (case get_connection db of
        Inl e \<Rightarrow> Inl e
      | Inr conn \<Rightarrow> replace_into audiobook_path position conn)"

definition get_position_db :: "database \<Rightarrow> string \<Rightarrow> sqlite_error + real" where
  "get_position_db db audiobook_path =
     (case get_connection db of
        Inl e \<Rightarrow> Inl e
      | Inr conn \<Rightarrow>
          (case fetchone audiobook_path conn of
             Some row \<Rightarrow> Inr (snd row)
           | None \<Rightarrow> Inr 0))"

text \<open>The number of records the table holds for a key; none while there is no table.\<close>

definition records_for :: "string \<Rightarrow> database \<Rightarrow> nat" where
  "records_for k db =
     (if table_exists db then length (filter (\<lambda>r. fst r = k) (progress db)) else 0)"

text \<open>A database whose file opens and accepts writes.\<close>

definition healthy :: "database \<Rightarrow> bool" where
  "healthy db \<longleftrightarrow> connectable db \<and> writable db"

text \<open>A new database file, without the table; a database that cannot be opened; a
  database that opens, has no table and refuses writes.\<close>

definition empty_db :: database where
  "empty_db = \<lparr>progress = [], table_exists = False, connectable = True, writable = True\<rparr>"

definition locked_db :: database where
  "locked_db = \<lparr>progress = [(''a.mp3'', 45)], table_exists = True,
                 connectable = False, writable = False\<rparr>"

definition readonly_db :: database where
  "readonly_db = \<lparr>progress = [], table_exists = False, connectable = True, writable = False\<rparr>"

section \<open>Floating-point arithmetic\<close>

text \<open>
  Positions, durations and the progress are Python floats, that is IEEE 754 binary64
  numbers. A float is written as the real it denotes, and every arithmetic operation of
  the code is the exact operation followed by rounding to the nearest number with a
  significand of 53 bits, ties to even. The exponent is not bounded: the values of this
  program are quotients of millisecond counts of 64 bits by 1000, their sums and
  differences with 30 and 1, their products with 1000 and 100 and their ratios, all far
  from the ends of the exponent range.
\<close>

definition round_half_even :: "real \<Rightarrow> int" where
  "round_half_even z =
     (let n = \<lfloor>z\<rfloor>; r = z - of_int n
      in if r < 1 / 2 then n
         else if 1 / 2 < r then n + 1
         else if even n then n else n + 1)"

text \<open>The exponent \<open>e\<close> with \<open>2 ^ e \<le> \<bar>x\<bar> < 2 ^ (e + 1)\<close>.\<close>

definition binade :: "real \<Rightarrow> int" where
  "binade x = \<lfloor>log 2 \<bar>x\<bar>\<rfloor>"

definition double :: "real \<Rightarrow> real" where
  "double x =
     (if x = 0 then 0
      else of_int (round_half_even (x * 2 powr of_int (52 - binade x)))
             * 2 powr of_int (binade x - 52))"

definition fadd :: "real \<Rightarrow> real \<Rightarrow> real" where
  "fadd x y = double (x + y)"

definition fsub :: "real \<Rightarrow> real \<Rightarrow> real" where
  "fsub x y = double (x - y)"

definition fmul :: "real \<Rightarrow> real \<Rightarrow> real" where
  "fmul x y = double (x * y)"

definition fdiv :: "real \<Rightarrow> real \<Rightarrow> real" where
  "fdiv x y = double (x / y)"

section \<open>Playback engine adapter (src/core/audio\_player.py)\<close>

text \<open>
  The media engine is the external library python-vlc. The model records, in the order
  they are issued, the commands the adapter sends to the media player, and takes every
  answer of the engine as an argument of the operation that asks for it: whether a
  command goes through or raises, and the value a query returns.
\<close>

datatype engine_call =
    SetMedia string
  | EnginePlay
  | EnginePause
  | EngineStop
  | SetTime int
  | AudioSetVolume int

datatype error = FailedToLoad | NoAudioFileLoaded | FailedToPlay

record AudioPlayer =
  file_path :: "string option"
  is_loaded :: bool
  is_playing :: bool
  is_paused :: bool
  current_position :: real
  duration :: real
  monitor_thread :: bool
  stop_monitoring :: bool
  engine_calls :: "engine_call list"

text \<open>\<^verbatim>\<open>AudioPlayer.__init__\<close>; \<^verbatim>\<open>monitor_thread\<close> tells whether a monitoring thread
  has been created.\<close>

definition init_player :: AudioPlayer where
  "init_player =
     \<lparr>file_path = None, is_loaded = False, is_playing = False, is_paused = False,
      current_position = 0, duration = 0, monitor_thread = False,
      stop_monitoring = False, engine_calls = []\<rparr>"

text \<open>What the file system and the engine answer to a load: the file does not exist, the
  engine raises on \<^verbatim>\<open>media_new\<close> or \<^verbatim>\<open>set_media\<close>, or the media is accepted and
  \<^verbatim>\<open>media.get_duration()\<close> answers a number of milliseconds (\<open>None\<close>: parsing raised).\<close>

datatype media_answer = FileMissing | EngineRejects | Media "int option"

text \<open>\<^verbatim>\<open>_get_duration\<close>; the quotient of two Python integers is the exact quotient,
  rounded once.\<close>

definition get_duration_of :: "int option \<Rightarrow> real" where
  "get_duration_of answer =
     (case answer of
        Some duration_ms \<Rightarrow>
          (if duration_ms > 0 then double (real_of_int duration_ms / 1000) else 0)
      | None \<Rightarrow> 0)"

text \<open>\<^verbatim>\<open>load_file\<close>: the state it leaves, and the exception it raises, if any.\<close>

definition load_file :: "string \<Rightarrow> media_answer \<Rightarrow> AudioPlayer \<Rightarrow> AudioPlayer \<times> error option" where
  "load_file path answer self =
     (case answer of
        FileMissing \<Rightarrow> (self\<lparr>file_path := Some path, is_loaded := False\<rparr>, Some FailedToLoad)
      | EngineRejects \<Rightarrow> (self\<lparr>file_path := Some path, is_loaded := False\<rparr>, Some FailedToLoad)
      | Media d \<Rightarrow>
          (self\<lparr>file_path := Some path,
                engine_calls := engine_calls self @ [SetMedia path],
                duration := get_duration_of d,
                is_loaded := True,
                current_position := 0\<rparr>, None))"

text \<open>\<^verbatim>\<open>_start_monitoring\<close> and \<^verbatim>\<open>_stop_monitoring\<close>\<close>

definition start_monitoring :: "AudioPlayer \<Rightarrow> AudioPlayer" where
  "start_monitoring self = self\<lparr>stop_monitoring := False, monitor_thread := True\<rparr>"

definition stop_monitoring_thread :: "AudioPlayer \<Rightarrow> AudioPlayer" where
  "stop_monitoring_thread self = self\<lparr>stop_monitoring := True\<rparr>"

text \<open>\<^verbatim>\<open>play\<close>; \<open>ok\<close> tells whether the engine's \<^verbatim>\<open>play()\<close> goes through.\<close>

definition play :: "bool \<Rightarrow> AudioPlayer \<Rightarrow> AudioPlayer \<times> error option" where
  "play ok self =
     (if \<not> is_loaded self then (self, Some NoAudioFileLoaded)
      else if \<not> ok then (self, Some FailedToPlay)
      else (start_monitoring
              (self\<lparr>engine_calls := engine_calls self @ [EnginePlay],
                     is_playing := True, is_paused := False\<rparr>), None))"

text \<open>\<^verbatim>\<open>pause\<close>, \<^verbatim>\<open>unpause\<close>, \<^verbatim>\<open>stop\<close>: an exception of the engine is printed and the state
  stays as it was.\<close>

definition pause :: "bool \<Rightarrow> AudioPlayer \<Rightarrow> AudioPlayer" where
  "pause ok self =
     (if \<not> is_loaded self then self
      else if \<not> ok then self
      else self\<lparr>engine_calls := engine_calls self @ [EnginePause],
                 is_playing := False, is_paused := True\<rparr>)"

definition unpause :: "bool \<Rightarrow> AudioPlayer \<Rightarrow> AudioPlayer" where
  "unpause ok self =
     (if \<not> is_loaded self then self
      else if \<not> ok then self
      else self\<lparr>engine_calls := engine_calls self @ [EnginePause],
                 is_playing := True, is_paused := False\<rparr>)"

definition stop :: "bool \<Rightarrow> AudioPlayer \<Rightarrow> AudioPlayer" where
  "stop ok self =
     (if \<not> is_loaded self then self
      else if \<not> ok then self
      else stop_monitoring_thread
             (self\<lparr>engine_calls := engine_calls self @ [EngineStop],
                    is_playing := False, is_paused := False, current_position := 0\<rparr>))"

text \<open>Python's \<^verbatim>\<open>int(x)\<close> on a float: truncation towards zero.\<close>

definition py_int :: "real \<Rightarrow> int" where
  "py_int x = (if 0 \<le> x then \<lfloor>x\<rfloor> else \<lceil>x\<rceil>)"

text \<open>\<^verbatim>\<open>set_position\<close>; the engine gets \<^verbatim>\<open>int(position * 1000)\<close>, the product being a float
  product. \<open>ok\<close> tells whether the body of the \<^verbatim>\<open>try\<close> goes through: the conversion to
  an integer, which raises when the product is not finite, and the engine's
  \<^verbatim>\<open>set_time\<close>.\<close>

definition set_position :: "bool \<Rightarrow> real \<Rightarrow> AudioPlayer \<Rightarrow> AudioPlayer" where
  "set_position ok position self =
     (if \<not> is_loaded self then self
      else if \<not> ok then self
      else self\<lparr>engine_calls := engine_calls self @ [SetTime (py_int (fmul position 1000))],
                 current_position := position\<rparr>)"

text \<open>\<^verbatim>\<open>get_position\<close>; the argument is the answer of the engine's \<^verbatim>\<open>get_time()\<close>
  (\<open>None\<close>: it raised).\<close>

definition get_position :: "int option \<Rightarrow> AudioPlayer \<Rightarrow> real" where
  "get_position answer self =
     (if \<not> is_loaded self then 0
      else (case answer of
              Some position_ms \<Rightarrow>
                (if position_ms > 0 then double (real_of_int position_ms / 1000) else 0)
            | None \<Rightarrow> 0))"

definition get_duration :: "AudioPlayer \<Rightarrow> real" where
  "get_duration self = duration self"

text \<open>\<^verbatim>\<open>set_volume\<close> and \<^verbatim>\<open>get_volume\<close>; neither looks at \<^verbatim>\<open>is_loaded\<close>.\<close>

definition set_volume :: "bool \<Rightarrow> int \<Rightarrow> AudioPlayer \<Rightarrow> AudioPlayer" where
  "set_volume ok volume self =
     (if \<not> ok then self
      else self\<lparr>engine_calls := engine_calls self @ [AudioSetVolume (max 0 (min 100 volume))]\<rparr>)"

definition get_volume :: "int option \<Rightarrow> AudioPlayer \<Rightarrow> int" where
  "get_volume answer self = (case answer of Some v \<Rightarrow> v | None \<Rightarrow> 50)"

definition is_file_loaded :: "AudioPlayer \<Rightarrow> bool" where
  "is_file_loaded self = is_loaded self"

text \<open>The loop of \<^verbatim>\<open>_monitor_playback\<close> runs in a thread of its own. Its body writes the
  position read from the engine and clears the playing flag at the end of the track.
  The arguments are the engine's answer to \<^verbatim>\<open>get_time()\<close> and whether \<^verbatim>\<open>get_state()\<close> is
  \<^verbatim>\<open>Ended\<close> (\<open>None\<close>: it raised, and the loop breaks). The engine's answers are
  arbitrary, so a round that writes a position it read some time before is a round
  with that answer.\<close>

definition monitor_playback_body :: "int option \<times> bool option \<Rightarrow> AudioPlayer \<Rightarrow> AudioPlayer" where
  "monitor_playback_body answer self =
     (let self1 = self\<lparr>current_position := get_position (fst answer) self\<rparr>
      in if snd answer = Some True then self1\<lparr>is_playing := False\<rparr> else self1)"

text \<open>The loop condition, for a thread that has been started.\<close>

definition monitor_live :: "AudioPlayer \<Rightarrow> bool" where
  "monitor_live self \<longleftrightarrow> monitor_thread self \<and> \<not> stop_monitoring self \<and> is_playing self"

text \<open>One round of the loop that falls between two operations of the adapter: the test
  of the loop condition and the body. Without a thread, or when the condition fails,
  the state stays as it is. A thread that has ended is not told apart from a live one,
  so the model allows every round the program can make, and some more.\<close>

definition monitor_playback_tick :: "int option \<times> bool option \<Rightarrow> AudioPlayer \<Rightarrow> AudioPlayer" where
  "monitor_playback_tick answer self =
     (if \<not> monitor_thread self \<or> stop_monitoring self \<or> \<not> is_playing self then self
      else monitor_playback_body answer self)"

text \<open>The operations of the adapter, each with the answers of its environment, and
  the run of a sequence of them from a state. An exception of \<^verbatim>\<open>load_file\<close> or \<^verbatim>\<open>play\<close>
  goes to the caller; the adapter keeps the state the call left.\<close>

datatype command =
    Load string media_answer
  | Play bool
  | Pause bool
  | Unpause bool
  | Stop bool
  | Seek bool real
  | MonitorTick "int option \<times> bool option"

fun step :: "AudioPlayer \<Rightarrow> command \<Rightarrow> AudioPlayer" where
  "step self (Load path answer) = fst (load_file path answer self)"
| "step self (Play ok) = fst (play ok self)"
| "step self (Pause ok) = pause ok self"
| "step self (Unpause ok) = unpause ok self"
| "step self (Stop ok) = stop ok self"
| "step self (Seek ok position) = set_position ok position self"
| "step self (MonitorTick answer) = monitor_playback_tick answer self"

definition run :: "command list \<Rightarrow> AudioPlayer \<Rightarrow> AudioPlayer" where
  "run cs self = foldl step self cs"

section \<open>Session controller (src/gui/player\_screen.py)\<close>

text \<open>
  Of the widgets the model keeps the title label, the text of the play button and the
  variable of the progress bar. \<^verbatim>\<open>root.after\<close> puts a call into the queue of the
  event loop; \<open>after_queue\<close> holds the calls that are waiting, oldest first.
\<close>

datatype title_label = Blank | Stem string | ErrorLoadingAudiobook

datatype callback =
    RestorePosition
  | UpdateProgressUi real real real
  | OnAudioFinished

record PlayerScreen =
  audiobook_path :: string
  audio_player :: AudioPlayer
  screen_is_playing :: bool
  update_thread :: bool
  stop_update :: bool
  last_position :: "real option"
  title :: title_label
  play_button :: string
  progress_var :: real
  after_queue :: "callback list"

text \<open>\<^verbatim>\<open>PlayerScreen.__init__\<close> up to the call of \<^verbatim>\<open>load_audiobook\<close>; the attribute
  \<^verbatim>\<open>last_position\<close> does not exist yet.\<close>

definition init_screen :: "string \<Rightarrow> PlayerScreen" where
  "init_screen path =
     \<lparr>audiobook_path = path, audio_player = init_player, screen_is_playing = False,
      update_thread = False, stop_update = False, last_position = None,
      title = Blank, play_button = ''OUVIR'', progress_var = 0, after_queue = []\<rparr>"

definition start_progress_update :: "PlayerScreen \<Rightarrow> PlayerScreen" where
  "start_progress_update self = self\<lparr>stop_update := False, update_thread := True\<rparr>"

text \<open>\<^verbatim>\<open>load_audiobook\<close>. Every exception inside it ends in the handler that writes
  ``Error loading audiobook'' into the title. The restore is put into the queue with a
  delay of 500 ms.\<close>

definition load_audiobook :: "media_answer \<Rightarrow> database \<Rightarrow> bool \<Rightarrow> PlayerScreen \<Rightarrow> PlayerScreen" where
  "load_audiobook media db play_ok self =
     (case load_file (audiobook_path self) media (audio_player self) of
        (player, Some e) \<Rightarrow> self\<lparr>audio_player := player, title := ErrorLoadingAudiobook\<rparr>
      | (player, None) \<Rightarrow>
          (case get_position_db db (audiobook_path self) of
             Inl e \<Rightarrow> self\<lparr>audio_player := player, title := ErrorLoadingAudiobook\<rparr>
           | Inr pos \<Rightarrow>
               (let self1 = start_progress_update
                              (self\<lparr>audio_player := player, last_position := Some pos,
                                     title := Stem (audiobook_path self)\<rparr>)
                in if pos > 0
                   then (case play play_ok player of
                           (player', Some e) \<Rightarrow>
                             self1\<lparr>audio_player := player', title := ErrorLoadingAudiobook\<rparr>
                         | (player', None) \<Rightarrow>
                             self1\<lparr>audio_player := player', screen_is_playing := True,
                                    after_queue := after_queue self1 @ [RestorePosition]\<rparr>)
                   else self1)))"

text \<open>The call that \<^verbatim>\<open>load_audiobook\<close> defers: seek to the saved position, pause, clear
  the screen's playing flag, reset the button. It runs in the thread of the event loop
  while the monitoring thread that \<^verbatim>\<open>play()\<close> started is alive, and nothing orders the
  two. \<open>between\<close> are the rounds of the monitor that fall between the seek and the
  pause. \<open>late\<close> is the round whose loop condition was tested before \<^verbatim>\<open>pause()\<close> cleared
  \<^verbatim>\<open>is_playing\<close> and whose body runs after it; there is at most one, since the next
  test fails. \<open>seek_ok\<close> and \<open>pause_ok\<close> tell whether the engine's \<^verbatim>\<open>set_time\<close> and
  \<^verbatim>\<open>pause\<close> go through.\<close>

definition restore_position ::
  "bool \<Rightarrow> bool \<Rightarrow> (int option \<times> bool option) list \<Rightarrow> (int option \<times> bool option) option \<Rightarrow>
   PlayerScreen \<Rightarrow> PlayerScreen" where
  "restore_position seek_ok pause_ok between late self =
     (case last_position self of
        None \<Rightarrow> self
      | Some pos \<Rightarrow>
          (let sought = run (map MonitorTick between)
                          (set_position seek_ok pos (audio_player self));
               paused = pause pause_ok sought;
               final = (case late of
                          None \<Rightarrow> paused
                        | Some answer \<Rightarrow>
                            if monitor_live sought then monitor_playback_body answer paused
                            else paused)
           in self\<lparr>audio_player := final,
                    screen_is_playing := False,
                    play_button := ''OUVIR''\<rparr>))"

text \<open>\<^verbatim>\<open>skip_forward\<close> and \<^verbatim>\<open>skip_backward\<close>; the first argument is the engine's answer to
  \<^verbatim>\<open>get_time()\<close>, the second whether \<^verbatim>\<open>set_time\<close> goes through. The sum and the
  differences are float operations, the comparison is exact.\<close>

definition skip_forward :: "int option \<Rightarrow> bool \<Rightarrow> PlayerScreen \<Rightarrow> PlayerScreen" where
  "skip_forward time_ms seek_ok self =
     (let current_pos = get_position time_ms (audio_player self);
          duration = get_duration (audio_player self);
          new_pos = (if fadd current_pos 30 \<ge> duration then max (fsub duration 1) 0
                     else fadd current_pos 30)
      in self\<lparr>audio_player := set_position seek_ok new_pos (audio_player self)\<rparr>)"

definition skip_backward :: "int option \<Rightarrow> bool \<Rightarrow> PlayerScreen \<Rightarrow> PlayerScreen" where
  "skip_backward time_ms seek_ok self =
     (let current_pos = get_position time_ms (audio_player self);
          new_pos = max (fsub current_pos 30) 0
      in self\<lparr>audio_player := set_position seek_ok new_pos (audio_player self)\<rparr>)"

text \<open>One round of the loop of \<^verbatim>\<open>update_progress\<close> (the poller of the screen, every
  500 ms); the argument is the engine's answer to \<^verbatim>\<open>get_time()\<close>. The progress is a
  float quotient followed by a float product.\<close>

definition update_progress_tick :: "int option \<Rightarrow> PlayerScreen \<Rightarrow> PlayerScreen" where
  "update_progress_tick time_ms self =
     (if stop_update self then self
      else if is_file_loaded (audio_player self) then
        (let current_pos = get_position time_ms (audio_player self);
             duration = get_duration (audio_player self);
             self1 = (if duration > 0
                      then self\<lparr>after_queue := after_queue self @
                             [UpdateProgressUi current_pos duration
                                (fmul (fdiv current_pos duration) 100)]\<rparr>
                      else self)
         in if screen_is_playing self1 \<and> current_pos \<ge> duration
            then self1\<lparr>after_queue := after_queue self1 @ [OnAudioFinished]\<rparr>
            else self1)
      else self)"

text \<open>What one round of the poller reports to \<^verbatim>\<open>update_progress_ui\<close>: the calls it adds
  to the queue that carry a progress.\<close>

fun reported :: "callback list \<Rightarrow> (real \<times> real \<times> real) list" where
  "reported [] = []"
| "reported (UpdateProgressUi c d p # cs) = (c, d, p) # reported cs"
| "reported (RestorePosition # cs) = reported cs"
| "reported (OnAudioFinished # cs) = reported cs"

definition progress_report :: "int option \<Rightarrow> PlayerScreen \<Rightarrow> (real \<times> real \<times> real) list" where
  "progress_report time_ms self =
     reported (drop (length (after_queue self)) (after_queue (update_progress_tick time_ms self)))"

text \<open>\<^verbatim>\<open>update_progress_ui\<close> and \<^verbatim>\<open>on_audio_finished\<close>, the calls the poller puts into the
  queue. The two time labels are not part of the model.\<close>

definition update_progress_ui :: "real \<Rightarrow> real \<Rightarrow> real \<Rightarrow> PlayerScreen \<Rightarrow> PlayerScreen" where
  "update_progress_ui current_pos duration_s percent self = self\<lparr>progress_var := percent\<rparr>"

definition on_audio_finished :: "PlayerScreen \<Rightarrow> PlayerScreen" where
  "on_audio_finished self = self\<lparr>screen_is_playing := False, play_button := ''OUVIR''\<rparr>"

section \<open>Properties of states and runs\<close>

text \<open>The playing flag and the paused flag are not both set.\<close>

definition flags_exclusive :: "AudioPlayer \<Rightarrow> bool" where
  "flags_exclusive self \<longleftrightarrow> \<not> (is_playing self \<and> is_paused self)"

text \<open>The current position is within the duration, when the duration is known.\<close>

definition position_bounded :: "AudioPlayer \<Rightarrow> bool" where
  "position_bounded self \<longleftrightarrow> (0 < duration self \<longrightarrow> current_position self \<le> duration self)"

text \<open>A command keeps within the track when its seek target, or the position the monitor
  reads from the engine, is at most the known duration; a run does when each of its
  commands does in the state it meets.\<close>

fun within_track :: "AudioPlayer \<Rightarrow> command \<Rightarrow> bool" where
  "within_track self (Seek ok position) = (0 < duration self \<longrightarrow> position \<le> duration self)"
| "within_track self (MonitorTick answer) =
     (0 < duration self \<longrightarrow> get_position (fst answer) self \<le> duration self)"
| "within_track self (Load path answer) = True"
| "within_track self (Play ok) = True"
| "within_track self (Pause ok) = True"
| "within_track self (Unpause ok) = True"
| "within_track self (Stop ok) = True"

fun run_within_track :: "AudioPlayer \<Rightarrow> command list \<Rightarrow> bool" where
  "run_within_track self [] = True"
| "run_within_track self (c # cs) = (within_track self c \<and> run_within_track (step self c) cs)"

text \<open>Two screens just opened on a book without a saved position: one whose duration the
  engine could not tell, one of two minutes.\<close>

definition unknown_length :: PlayerScreen where
  "unknown_length = load_audiobook (Media None) empty_db True (init_screen ''a.mp3'')"

definition two_minutes :: PlayerScreen where
  "two_minutes = load_audiobook (Media (Some 120000)) empty_db True (init_screen ''a.mp3'')"

text \<open>A screen opened on a book of 31.013 seconds.\<close>

definition near_the_end :: PlayerScreen where
  "near_the_end = load_audiobook (Media (Some 31013)) empty_db True (init_screen ''a.mp3'')"

text \<open>A database that holds the position 45 for one book.\<close>

definition bookmarked_db :: database where
  "bookmarked_db = \<lparr>progress = [(''a.mp3'', 45)], table_exists = True,
                     connectable = True, writable = True\<rparr>"

text \<open>The screen opened on that book, and the restore during which the monitor reads
  46 seconds from the engine between the seek and the pause.\<close>

definition resumed :: PlayerScreen where
  "resumed = load_audiobook (Media (Some 120000)) bookmarked_db True (init_screen ''a.mp3'')"

definition overtaken :: PlayerScreen where
  "overtaken = restore_position True True [(Some 46000, Some False)] None resumed"

section \<open>Lemmas shared by the proofs\<close>

lemmas adapter_defs =
  load_file_def play_def pause_def unpause_def stop_def set_position_def
  monitor_playback_tick_def monitor_playback_body_def
  start_monitoring_def stop_monitoring_thread_def
  get_position_def get_duration_of_def

lemmas screen_defs =
  load_audiobook_def init_screen_def init_player_def load_file_def
  get_position_db_def get_connection_def fetchone_def
  start_progress_update_def

subsection \<open>Rounding\<close>

lemma round_half_even_of_int: "round_half_even (of_int m) = m"
  by (simp add: round_half_even_def)

lemma round_half_even_error: "\<bar>of_int (round_half_even z) - z\<bar> \<le> 1 / 2"
  unfolding round_half_even_def Let_def
  by (auto simp: abs_le_iff)

lemma round_half_even_nonneg: "0 \<le> z \<Longrightarrow> 0 \<le> round_half_even z"
  unfolding round_half_even_def Let_def by (auto simp: le_floor_iff) 

lemma round_half_even_nonpos: "z \<le> 0 \<Longrightarrow> round_half_even z \<le> 0"
  unfolding round_half_even_def Let_def
  by (auto simp: floor_le_iff)


lemma double_nonneg: "0 \<le> x \<Longrightarrow> 0 \<le> double x"
  by (simp add: double_def round_half_even_nonneg)

lemma double_nonpos: "x \<le> 0 \<Longrightarrow> double x \<le> 0"
proof -
  assume "x \<le> 0"
  then have "x * 2 powr of_int (52 - binade x) \<le> 0"
    by (simp add: mult_nonpos_nonneg)
  then have "round_half_even (x * 2 powr of_int (52 - binade x)) \<le> 0"
    by (rule round_half_even_nonpos)
  then show ?thesis
    by (simp add: double_def mult_nonpos_nonneg)
qed

lemma double_exact:
  assumes "x * 2 powr of_int (52 - binade x) = of_int m"
  shows "double x = x"
proof (cases "x = 0")
  case True then show ?thesis by (simp add: double_def)
next
  case False
  have "double x = of_int m * 2 powr of_int (binade x - 52)"
    using False assms by (simp add: double_def round_half_even_of_int)
  also have "\<dots> = x * (2 powr of_int (52 - binade x) * 2 powr of_int (binade x - 52))"
    using assms by simp
  also have "2 powr of_int (52 - binade x) * 2 powr of_int (binade x - 52) = (1::real)"
    by (simp add: powr_add [symmetric])
  finally show ?thesis by simp
qed

lemma binade_le:
  assumes "x \<noteq> 0" and "\<bar>x\<bar> < 2 powr of_int e"
  shows "binade x < e"
proof -
  have "log 2 \<bar>x\<bar> < of_int e"
    using assms by (simp add: log_less_iff)
  then show ?thesis by (simp add: binade_def floor_less_iff)
qed

lemma double_error:
  assumes "x \<noteq> 0"
  shows "\<bar>double x - x\<bar> \<le> 2 powr of_int (binade x - 53)"
proof -
  define s where "s = (2::real) powr of_int (52 - binade x)"
  define t where "t = (2::real) powr of_int (binade x - 52)"
  have st: "s * t = 1" by (simp add: s_def t_def powr_add [symmetric])
  have tpos: "0 < t" by (simp add: t_def)
  have "double x - x = (of_int (round_half_even (x * s)) - x * s) * t"
    using assms st by (simp add: double_def s_def t_def algebra_simps)
  then have "\<bar>double x - x\<bar> = \<bar>of_int (round_half_even (x * s)) - x * s\<bar> * t"
    using tpos by (simp add: abs_mult)
  also have "\<dots> \<le> (1 / 2) * t"
    using round_half_even_error [of "x * s"] tpos by (intro mult_right_mono) auto
  also have "(1 / 2) * t = 2 powr of_int (binade x - 53)"
    by (simp add: t_def powr_diff)
  finally show ?thesis .
qed


lemma double_dyadic:
  assumes "\<bar>n\<bar> < 2 ^ 53"
  shows "double (of_int n / 2 ^ k) = of_int n / 2 ^ k"
proof (cases "n = 0")
  case True then show ?thesis by (simp add: double_def)
next
  case False
  define x :: real where "x = of_int n / 2 ^ k"
  have x0: "x \<noteq> 0" using False by (simp add: x_def)
  have "\<bar>x\<bar> < 2 ^ 53 / 2 ^ k"
  proof -
    have "real_of_int \<bar>n\<bar> < 2 ^ 53" using assms
      by (simp only: of_int_less_numeral_power_cancel_iff)
    then have "\<bar>real_of_int n\<bar> < 2 ^ 53" by simp
    then show ?thesis by (simp add: x_def divide_strict_right_mono)
  qed
  also have "\<dots> = 2 powr of_int (53 - int k)"
    by (simp add: powr_diff powr_realpow)
  finally have "binade x < 53 - int k" using x0 by (intro binade_le)
  then have "0 \<le> 52 - binade x - int k" by simp
  then obtain j :: nat where "52 - binade x - int k = int j"
    using zero_le_imp_eq_int by blast
  then have j: "52 - binade x = int k + int j" by simp
  have p: "(2::real) powr of_int (52 - binade x) = 2 ^ k * 2 ^ j"
    unfolding j by (simp add: powr_add powr_realpow)
  have "x * 2 powr of_int (52 - binade x) = x * (2 ^ k * 2 ^ j)"
    by (simp only: p)
  also have "\<dots> = of_int (n * 2 ^ j)" by (simp add: x_def)
  finally have "double x = x" by (rule double_exact)
  then show ?thesis by (simp only: x_def)
qed

lemma double_of_int: "\<bar>n\<bar> < 2 ^ 53 \<Longrightarrow> double (of_int n) = of_int n"
  using double_dyadic [of n 0] by simp

lemma double_numeral [simp]:
  "(numeral w :: int) < 2 ^ 53 \<Longrightarrow> double (numeral w) = numeral w"
  using double_of_int [of "numeral w"] by simp

lemma double_neg_numeral [simp]:
  "(numeral w :: int) < 2 ^ 53 \<Longrightarrow> double (- numeral w) = - numeral w"
  using double_of_int [of "- numeral w"] by simp

lemma double_zero [simp]: "double 0 = 0" by (simp add: double_def)
lemma double_one [simp]: "double 1 = 1" using double_of_int [of 1] by simp

lemma double_minus_one [simp]: "double (- 1) = - 1"
  using double_of_int [of "- 1"] by simp

lemma double_quarter: "double (1 / 4) = 1 / 4"
  using double_dyadic [of 1 2] by simp

lemma quarter_progress: "fmul (fdiv 30 120) 100 = 25"
  by (simp add: fdiv_def fmul_def double_quarter)

lemma clamp_below_duration:
  assumes "0 < d" and "d \<le> 2 ^ 53"
  shows "max (fsub d 1) 0 < d"
proof (cases "d - 1 \<le> 0")
  case True
  then have "double (d - 1) \<le> 0" by (rule double_nonpos)
  then show ?thesis using assms by (simp add: fsub_def)
next
  case False
  then have y: "d - 1 \<noteq> 0" "\<bar>d - 1\<bar> < 2 powr of_int 53"
    using assms by (auto simp: powr_realpow)
  then have "binade (d - 1) < 53" by (rule binade_le)
  then have "(2::real) powr of_int (binade (d - 1) - 53) \<le> 2 powr of_int (- 1)"
    by (intro powr_mono) auto
  also have "\<dots> = 1 / 2" by (simp add: powr_minus_divide)
  finally have "\<bar>double (d - 1) - (d - 1)\<bar> \<le> 1 / 2"
    using double_error [OF y(1)] by linarith
  then have "double (d - 1) < d" by linarith
  then show ?thesis using assms by (simp add: fsub_def)
qed

subsection \<open>Roundings worked out\<close>

text \<open>The rounding of a number whose binade is known, and three values of the program:
  the positions 1.013 and 1.001, the duration 31.013. The sum of 1.013 and 30 rounds
  below 31.013, and the product of 1.001 and 1000 rounds below 1001.\<close>

lemma binade_eq:
  assumes "2 powr of_int e \<le> \<bar>x\<bar>" and "\<bar>x\<bar> < 2 powr of_int (e + 1)"
  shows "binade x = e"
proof -
  have pos: "0 < \<bar>x\<bar>"
    using assms(1) powr_gt_zero [of 2 "of_int e"] by linarith
  have "of_int e \<le> log 2 \<bar>x\<bar>"
    using assms(1) pos by (simp add: le_log_iff)
  moreover have "log 2 \<bar>x\<bar> < of_int (e + 1)"
    using assms(2) pos by (simp add: log_less_iff)
  ultimately show ?thesis
    unfolding binade_def by (intro floor_unique) simp_all
qed

lemma double_at:
  assumes "2 powr of_int e \<le> \<bar>x\<bar>" and "\<bar>x\<bar> < 2 powr of_int (e + 1)"
  shows "double x = of_int (round_half_even (x * 2 powr of_int (52 - e))) * 2 powr of_int (e - 52)"
proof -
  have "x \<noteq> 0"
    using assms(1) powr_gt_zero [of 2 "of_int e"] by auto
  then show ?thesis by (simp add: double_def binade_eq [OF assms])
qed

lemma position_1013: "double (1013 / 1000) = 570268302815789 / 562949953421312"
proof -
  have "double (1013 / 1000) =
          of_int (round_half_even (1013 / 1000 * 2 powr of_int (52 - 0))) * 2 powr of_int (0 - 52)"
    by (rule double_at) simp_all
  also have "\<dots> = 570268302815789 / 562949953421312"
    by (simp add: round_half_even_def powr_minus_divide)
  finally show ?thesis .
qed

lemma duration_31013: "double (31013 / 1000) = 8729383452727575 / 281474976710656"
proof -
  have "double (31013 / 1000) =
          of_int (round_half_even (31013 / 1000 * 2 powr of_int (52 - 4))) * 2 powr of_int (4 - 52)"
    by (rule double_at) simp_all
  also have "\<dots> = 8729383452727575 / 281474976710656"
    by (simp add: round_half_even_def powr_minus_divide)
  finally show ?thesis .
qed

lemma sum_1013_30:
  "fadd (570268302815789 / 562949953421312) 30 = 4364691726363787 / 140737488355328"
proof -
  have "double (570268302815789 / 562949953421312 + 30) =
          of_int (round_half_even ((570268302815789 / 562949953421312 + 30) * 2 powr of_int (52 - 4)))
            * 2 powr of_int (4 - 52)"
    by (rule double_at) simp_all
  also have "\<dots> = 4364691726363787 / 140737488355328"
    by (simp add: round_half_even_def powr_minus_divide)
  finally show ?thesis by (simp only: fadd_def)
qed

lemma thirty_before_the_end:
  "fadd (double (1013 / 1000)) 30 < double (31013 / 1000)"
  by (simp add: position_1013 duration_31013 sum_1013_30)

lemma position_1001: "double (1001 / 1000) = 2254051613498933 / 2251799813685248"
proof -
  have "double (1001 / 1000) =
          of_int (round_half_even (1001 / 1000 * 2 powr of_int (52 - 0))) * 2 powr of_int (0 - 52)"
    by (rule double_at) simp_all
  also have "\<dots> = 2254051613498933 / 2251799813685248"
    by (simp add: round_half_even_def powr_minus_divide)
  finally show ?thesis .
qed

lemma product_1001:
  "fmul (2254051613498933 / 2251799813685248) 1000 = 8804889115230207 / 8796093022208"
proof -
  have "double (2254051613498933 / 2251799813685248 * 1000) =
          of_int (round_half_even (2254051613498933 / 2251799813685248 * 1000
                                     * 2 powr of_int (52 - 9)))
            * 2 powr of_int (9 - 52)"
    by (rule double_at) simp_all
  also have "\<dots> = 8804889115230207 / 8796093022208"
    by (simp add: round_half_even_def powr_minus_divide)
  finally show ?thesis by (simp only: fmul_def)
qed

lemma seek_to_1001: "py_int (fmul (double (1001 / 1000)) 1000) = 1000"
  by (simp add: position_1001 product_1001 py_int_def)

subsection \<open>The table\<close>

lemma records_for_filter_out:
  "length (filter (\<lambda>r. fst r = k) (filter (\<lambda>r. fst r \<noteq> k) rows @ [(k, p)])) = 1"
  by (induction rows) auto

lemma find_after_replace:
  "find (\<lambda>r. fst r = k) (filter (\<lambda>r. fst r \<noteq> k) rows @ [(k, p)]) = Some (k, p)"
  by (induction rows) auto

lemma distinct_after_replace:
  "distinct (map fst rows) \<Longrightarrow> distinct (map fst (filter (\<lambda>r. fst r \<noteq> k) rows @ [(k, p)]))"
  by (induction rows) auto

lemma save_position_healthy:
  "healthy db \<Longrightarrow> \<exists>db1. save_position db k p = Inr db1"
  by (simp add: save_position_def get_connection_def replace_into_def healthy_def)

lemma save_position_keeps_healthy:
  "save_position db k p = Inr db1 \<Longrightarrow> healthy db1"
  by (auto simp: save_position_def get_connection_def replace_into_def healthy_def
           split: if_splits)

lemma get_after_save:
  "save_position db k p = Inr db1 \<Longrightarrow> get_position_db db1 k = Inr p"
  by (auto simp: save_position_def get_connection_def replace_into_def get_position_db_def
                 fetchone_def find_after_replace split: if_splits)

lemma one_record_after_save:
  "save_position db k p = Inr db1 \<Longrightarrow> records_for k db1 = 1"
  by (auto simp: save_position_def get_connection_def replace_into_def records_for_def
                 records_for_filter_out split: if_splits)

lemma primary_key_after_save:
  "save_position db k p = Inr db1 \<Longrightarrow> distinct (map fst (progress db)) \<Longrightarrow>
   distinct (map fst (progress db1))"
  by (auto simp: save_position_def get_connection_def replace_into_def
           split: if_splits dest: distinct_after_replace[of _ k p])

lemma find_no_record:
  "length (filter (\<lambda>r. fst r = k) rows) = 0 \<Longrightarrow> find (\<lambda>r. fst r = k) rows = None"
  by (auto simp: find_None_iff filter_empty_conv)

lemma find_unique_record:
  "distinct (map fst rows) \<Longrightarrow> (k, v) \<in> set rows \<Longrightarrow> find (\<lambda>r. fst r = k) rows = Some (k, v)"
  by (induction rows) (auto simp: rev_image_eqI)

subsection \<open>Runs of the adapter\<close>

lemma step_flags_exclusive: "flags_exclusive self \<Longrightarrow> flags_exclusive (step self c)"
  by (cases c) (auto simp: flags_exclusive_def adapter_defs Let_def split: media_answer.splits)

lemma run_flags_exclusive: "flags_exclusive self \<Longrightarrow> flags_exclusive (run cs self)"
  unfolding run_def by (induction cs arbitrary: self) (simp_all add: step_flags_exclusive)

lemma init_flags_exclusive: "flags_exclusive init_player"
  by (simp add: flags_exclusive_def init_player_def)

lemma step_position_bounded:
  "position_bounded self \<Longrightarrow> within_track self c \<Longrightarrow> position_bounded (step self c)"
  by (cases c)
     (auto simp: position_bounded_def load_file_def play_def pause_def unpause_def stop_def
                 set_position_def monitor_playback_tick_def monitor_playback_body_def
                 start_monitoring_def
                 stop_monitoring_thread_def Let_def
           split: media_answer.splits)

lemma run_position_bounded:
  "position_bounded self \<Longrightarrow> run_within_track self cs \<Longrightarrow> position_bounded (run cs self)"
  unfolding run_def
  by (induction cs arbitrary: self) (simp_all add: step_position_bounded)

lemma monitor_rounds_keep:
  "is_loaded (run (map MonitorTick ticks) self) = is_loaded self \<and>
   is_paused (run (map MonitorTick ticks) self) = is_paused self \<and>
   engine_calls (run (map MonitorTick ticks) self) = engine_calls self"
  unfolding run_def
  by (induction ticks arbitrary: self)
     (simp_all add: monitor_playback_tick_def monitor_playback_body_def Let_def)

lemma monitor_body_keeps:
  "is_loaded (monitor_playback_body answer self) = is_loaded self \<and>
   is_paused (monitor_playback_body answer self) = is_paused self \<and>
   engine_calls (monitor_playback_body answer self) = engine_calls self \<and>
   (\<not> is_playing self \<longrightarrow> \<not> is_playing (monitor_playback_body answer self))"
  by (simp add: monitor_playback_body_def Let_def)

lemma two_minutes_loaded: "is_loaded (audio_player two_minutes)"
  by (simp add: two_minutes_def screen_defs empty_db_def)

lemma two_minutes_duration: "duration (audio_player two_minutes) = 120"
  by (simp add: two_minutes_def screen_defs empty_db_def get_duration_of_def)

section \<open>The position store\<close>

text \<open>
  C1. On a database that opens and accepts writes, whatever rows its table holds:
  saving a position for a key and reading the key back gives that position; saving a
  second position for the same key and reading again gives the second one; after each
  save the table holds exactly one record for the key, and a table with at most one
  record per key stays so. The sign of the position plays no part.
\<close>

theorem save_then_get_round_trip:
  assumes "healthy db"
  shows "\<exists>db1 db2.
           save_position db k p1 = Inr db1 \<and> get_position_db db1 k = Inr p1 \<and>
           records_for k db1 = 1 \<and>
           save_position db1 k p2 = Inr db2 \<and> get_position_db db2 k = Inr p2 \<and>
           records_for k db2 = 1 \<and>
           (distinct (map fst (progress db)) \<longrightarrow>
              distinct (map fst (progress db1)) \<and> distinct (map fst (progress db2)))"
proof -
  from assms obtain db1 where s1: "save_position db k p1 = Inr db1"
    using save_position_healthy by blast
  then have "healthy db1" by (rule save_position_keeps_healthy)
  then obtain db2 where s2: "save_position db1 k p2 = Inr db2"
    using save_position_healthy by blast
  have g1: "get_position_db db1 k = Inr p1" using s1 by (rule get_after_save)
  have g2: "get_position_db db2 k = Inr p2" using s2 by (rule get_after_save)
  have r1: "records_for k db1 = 1" using s1 by (rule one_record_after_save)
  have r2: "records_for k db2 = 1" using s2 by (rule one_record_after_save)
  have d: "distinct (map fst (progress db)) \<longrightarrow>
             distinct (map fst (progress db1)) \<and> distinct (map fst (progress db2))"
    using primary_key_after_save [OF s1] primary_key_after_save [OF s2] by simp
  from s1 g1 r1 s2 g2 r2 d show ?thesis by blast
qed

theorem save_then_get_round_trip_witness:
  "healthy empty_db \<and>
   (\<exists>db1 db2.
      save_position empty_db ''a.mp3'' 45 = Inr db1 \<and> get_position_db db1 ''a.mp3'' = Inr 45 \<and>
      records_for ''a.mp3'' db1 = 1 \<and>
      save_position db1 ''a.mp3'' 60 = Inr db2 \<and> get_position_db db2 ''a.mp3'' = Inr 60 \<and>
      records_for ''a.mp3'' db2 = 1 \<and>
      (distinct (map fst (progress empty_db)) \<longrightarrow>
         distinct (map fst (progress db1)) \<and> distinct (map fst (progress db2))))"
proof -
  have h: "healthy empty_db" by (simp add: healthy_def empty_db_def)
  show ?thesis using h save_then_get_round_trip [OF h, of "''a.mp3''" 45 60] by simp
qed

text \<open>
  C2, as the code has it. Neither function of the store handles an exception, and
  nothing is logged or put in the place of the result. Saving raises the error of the
  database exactly when the database cannot be opened or refuses writes. Reading raises
  it exactly when the database cannot be opened, or has no progress table yet and
  refuses the write that creates it. When the database opens and accepts writes, saving
  returns normally and a read of the key then returns the position saved. When the
  read goes through it returns the stored position of the key, or 0 when the key has no
  record.
\<close>

theorem store_error_policy:
  "(save_position db k p = Inl OperationalError \<longleftrightarrow> \<not> (connectable db \<and> writable db)) \<and>
   (get_position_db db k = Inl OperationalError \<longleftrightarrow>
      \<not> (connectable db \<and> (table_exists db \<or> writable db))) \<and>
   (connectable db \<and> writable db \<longrightarrow>
      (\<exists>db1. save_position db k p = Inr db1 \<and> get_position_db db1 k = Inr p)) \<and>
   (connectable db \<and> table_exists db \<and> distinct (map fst (progress db)) \<and>
    (k, v) \<in> set (progress db) \<longrightarrow> get_position_db db k = Inr v) \<and>
   (connectable db \<and> (table_exists db \<or> writable db) \<and> records_for k db = 0 \<longrightarrow>
      get_position_db db k = Inr 0)"
proof (intro conjI impI)
  show "save_position db k p = Inl OperationalError \<longleftrightarrow> \<not> (connectable db \<and> writable db)"
    by (auto simp: save_position_def get_connection_def replace_into_def)
  show "get_position_db db k = Inl OperationalError \<longleftrightarrow>
          \<not> (connectable db \<and> (table_exists db \<or> writable db))"
    by (auto simp: get_position_db_def get_connection_def split: option.splits)
next
  assume "connectable db \<and> writable db"
  then have "healthy db" by (simp add: healthy_def)
  then obtain db1 where "save_position db k p = Inr db1"
    using save_position_healthy by blast
  then show "\<exists>db1. save_position db k p = Inr db1 \<and> get_position_db db1 k = Inr p"
    using get_after_save by blast
next
  assume "connectable db \<and> table_exists db \<and> distinct (map fst (progress db)) \<and>
          (k, v) \<in> set (progress db)"
  then have "connectable db" and "table_exists db"
    and "find (\<lambda>r. fst r = k) (progress db) = Some (k, v)"
    by (simp_all add: find_unique_record)
  then show "get_position_db db k = Inr v"
    by (simp add: get_position_db_def get_connection_def fetchone_def)
next
  assume a: "connectable db \<and> (table_exists db \<or> writable db) \<and> records_for k db = 0"
  show "get_position_db db k = Inr 0"
  proof (cases "table_exists db")
    case True
    with a have "find (\<lambda>r. fst r = k) (progress db) = None"
      by (simp add: records_for_def find_no_record)
    with a True show ?thesis
      by (simp add: get_position_db_def get_connection_def fetchone_def)
  next
    case False
    with a show ?thesis
      by (simp add: get_position_db_def get_connection_def fetchone_def)
  qed
qed

theorem store_error_policy_witness:
  "\<not> (connectable (locked_db\<lparr>connectable := True\<rparr>) \<and> writable (locked_db\<lparr>connectable := True\<rparr>)) \<and>
   save_position (locked_db\<lparr>connectable := True\<rparr>) ''a.mp3'' 7 = Inl OperationalError \<and>
   connectable (locked_db\<lparr>connectable := True\<rparr>) \<and>
   table_exists (locked_db\<lparr>connectable := True\<rparr>) \<and>
   distinct (map fst (progress (locked_db\<lparr>connectable := True\<rparr>))) \<and>
   (''a.mp3'', 45) \<in> set (progress (locked_db\<lparr>connectable := True\<rparr>)) \<and>
   get_position_db (locked_db\<lparr>connectable := True\<rparr>) ''a.mp3'' = Inr 45"
  using store_error_policy [of "locked_db\<lparr>connectable := True\<rparr>" "''a.mp3''" 7 45]
  by (simp add: locked_db_def)

text \<open>On a database that cannot be opened, saving does not return normally and reading
  does not return 0: both end in the error.\<close>

theorem store_error_reaches_caller:
  "save_position locked_db ''a.mp3'' 10 = Inl OperationalError \<and>
   get_position_db locked_db ''a.mp3'' = Inl OperationalError \<and>
   get_position_db locked_db ''a.mp3'' \<noteq> Inr 0"
  by (simp add: save_position_def get_position_db_def get_connection_def locked_db_def)

text \<open>
  C9, as the code has it. Reading a key that has no record returns 0 when the database
  can be opened and the progress table is there or can be created. When the database
  cannot be opened, or has no table and refuses the write that creates it, reading
  raises the error of the database.
\<close>

theorem get_position_missing_key:
  assumes "records_for k db = 0"
  shows "(connectable db \<and> (table_exists db \<or> writable db) \<longrightarrow>
            get_position_db db k = Inr 0) \<and>
         (\<not> (connectable db \<and> (table_exists db \<or> writable db)) \<longrightarrow>
            get_position_db db k = Inl OperationalError)"
proof (intro conjI impI)
  assume a: "connectable db \<and> (table_exists db \<or> writable db)"
  show "get_position_db db k = Inr 0"
  proof (cases "table_exists db")
    case True
    with assms have "find (\<lambda>r. fst r = k) (progress db) = None"
      by (simp add: records_for_def find_no_record)
    with a True show ?thesis
      by (simp add: get_position_db_def get_connection_def fetchone_def)
  next
    case False
    with a show ?thesis
      by (simp add: get_position_db_def get_connection_def fetchone_def)
  qed
next
  assume "\<not> (connectable db \<and> (table_exists db \<or> writable db))"
  then show "get_position_db db k = Inl OperationalError"
    by (auto simp: get_position_db_def get_connection_def)
qed

theorem get_position_missing_key_witness:
  "records_for ''b.mp3'' empty_db = 0 \<and>
   connectable empty_db \<and> (table_exists empty_db \<or> writable empty_db) \<and>
   get_position_db empty_db ''b.mp3'' = Inr 0"
proof -
  have h: "records_for ''b.mp3'' empty_db = 0" by (simp add: empty_db_def records_for_def)
  have c: "connectable empty_db \<and> (table_exists empty_db \<or> writable empty_db)"
    by (simp add: empty_db_def)
  show ?thesis using h c get_position_missing_key [OF h] by simp
qed

text \<open>A database that opens, has no progress table and refuses writes holds no record
  for any key, and reading a key from it raises the error instead of returning 0.\<close>

theorem missing_key_on_readonly_database:
  "records_for ''b.mp3'' readonly_db = 0 \<and>
   get_position_db readonly_db ''b.mp3'' = Inl OperationalError \<and>
   get_position_db readonly_db ''b.mp3'' \<noteq> Inr 0"
  by (simp add: records_for_def get_position_db_def get_connection_def readonly_db_def)

section \<open>The adapter\<close>

text \<open>
  C4, as the code has it. While no file is loaded, \<^verbatim>\<open>play\<close> raises ``No audio file
  loaded'' and leaves the state as it is; \<^verbatim>\<open>pause\<close>, \<^verbatim>\<open>unpause\<close>, \<^verbatim>\<open>stop\<close> and
  \<^verbatim>\<open>set_position\<close> return without an error and without any change. \<^verbatim>\<open>set_volume\<close> does
  not look at the loaded flag: it sends the volume, clamped to 0..100, to the engine,
  and leaves the state as it is only when the engine refuses the call.
\<close>

theorem unloaded_commands:
  assumes "\<not> is_loaded self"
  shows "play ok self = (self, Some NoAudioFileLoaded) \<and>
         pause ok self = self \<and>
         unpause ok self = self \<and>
         stop ok self = self \<and>
         set_position ok position self = self \<and>
         set_volume False volume self = self \<and>
         set_volume True volume self =
           self\<lparr>engine_calls := engine_calls self @ [AudioSetVolume (max 0 (min 100 volume))]\<rparr>"
  using assms by (simp add: adapter_defs set_volume_def)

theorem unloaded_commands_witness:
  "\<not> is_loaded init_player \<and>
   play True init_player = (init_player, Some NoAudioFileLoaded) \<and>
   pause True init_player = init_player \<and>
   stop True init_player = init_player \<and>
   set_position True 10 init_player = init_player \<and>
   engine_calls (set_volume True (- 5) init_player) = [AudioSetVolume 0]"
proof -
  have h: "\<not> is_loaded init_player" by (simp add: init_player_def)
  have e: "engine_calls init_player = []" by (simp add: init_player_def)
  show ?thesis
    using h e unloaded_commands [OF h, of True 10 "- 5"] by simp
qed

text \<open>On the adapter as created, with no file loaded, \<^verbatim>\<open>set_volume(150)\<close> is not a
  no-op: the engine is told to set the volume to 100.\<close>

theorem unloaded_set_volume_reaches_engine:
  "\<not> is_loaded init_player \<and>
   set_volume True 150 init_player \<noteq> init_player \<and>
   engine_calls (set_volume True 150 init_player) = [AudioSetVolume 100]"
  by (simp add: set_volume_def init_player_def)

text \<open>
  C5, as the code has it. In every state reached from the adapter as created by loads,
  plays, pauses, unpauses, stops, seeks and rounds of the monitor, whatever the engine
  answers, the playing flag and the paused flag are not both set. Both are clear in the
  adapter as created, and after a stop that goes through on a loaded session.
\<close>

theorem playing_paused_exclusive:
  "\<not> (is_playing (run cs init_player) \<and> is_paused (run cs init_player)) \<and>
   \<not> is_playing init_player \<and> \<not> is_paused init_player \<and>
   (is_loaded (run cs init_player) \<longrightarrow>
      \<not> is_playing (stop True (run cs init_player)) \<and>
      \<not> is_paused (stop True (run cs init_player)))"
proof -
  have "flags_exclusive (run cs init_player)"
    using init_flags_exclusive by (rule run_flags_exclusive)
  then show ?thesis
    by (simp add: flags_exclusive_def init_player_def stop_def stop_monitoring_thread_def)
qed

theorem playing_paused_exclusive_witness:
  "is_loaded (run [Load ''a.mp3'' (Media (Some 120000)), Play True, Pause True] init_player) \<and>
   \<not> (is_playing (run [Load ''a.mp3'' (Media (Some 120000)), Play True, Pause True] init_player) \<and>
      is_paused (run [Load ''a.mp3'' (Media (Some 120000)), Play True, Pause True] init_player)) \<and>
   \<not> is_paused
       (stop True (run [Load ''a.mp3'' (Media (Some 120000)), Play True, Pause True] init_player))"
proof -
  have h: "is_loaded (run [Load ''a.mp3'' (Media (Some 120000)), Play True, Pause True] init_player)"
    by (simp add: run_def adapter_defs init_player_def)
  show ?thesis
    using h playing_paused_exclusive
              [of "[Load ''a.mp3'' (Media (Some 120000)), Play True, Pause True]"]
    by simp
qed

text \<open>Loading a file, playing it, then loading a file that does not exist leaves the
  session unloaded with the playing flag set.\<close>

theorem flags_after_failed_load:
  "\<not> is_loaded (run [Load ''a.mp3'' (Media (Some 120000)), Play True, Load ''b.mp3'' FileMissing]
                    init_player) \<and>
   is_playing (run [Load ''a.mp3'' (Media (Some 120000)), Play True, Load ''b.mp3'' FileMissing]
                 init_player)"
  by (simp add: run_def adapter_defs init_player_def)

text \<open>
  C6, as the code has it. \<^verbatim>\<open>set_position\<close> does not clamp: after a seek that goes
  through on a loaded session the current position is the target as given, and the
  duration is as before. The current position is at most the known duration in every
  state reached from the adapter as created by a run that keeps within the track, that
  is, whose seek targets and whose positions read from the engine by the monitor are at
  most the known duration.
\<close>

theorem position_bound:
  "(is_loaded self \<longrightarrow> current_position (set_position True position self) = position \<and>
                       duration (set_position True position self) = duration self) \<and>
   (run_within_track init_player cs \<longrightarrow> 0 < duration (run cs init_player) \<longrightarrow>
      current_position (run cs init_player) \<le> duration (run cs init_player))"
proof -
  have "position_bounded init_player"
    by (simp add: position_bounded_def init_player_def)
  then have "run_within_track init_player cs \<Longrightarrow> position_bounded (run cs init_player)"
    by (rule run_position_bounded)
  then show ?thesis
    by (auto simp: position_bounded_def set_position_def)
qed

theorem position_bound_witness:
  "is_loaded (audio_player two_minutes) \<and>
   current_position (set_position True 500 (audio_player two_minutes)) = 500 \<and>
   run_within_track init_player
     [Load ''a.mp3'' (Media (Some 120000)), Play True, MonitorTick (Some 2000, Some False),
      Seek True 90] \<and>
   0 < duration (run [Load ''a.mp3'' (Media (Some 120000)), Play True,
                      MonitorTick (Some 2000, Some False), Seek True 90] init_player) \<and>
   current_position (run [Load ''a.mp3'' (Media (Some 120000)), Play True,
                          MonitorTick (Some 2000, Some False), Seek True 90] init_player)
     \<le> duration (run [Load ''a.mp3'' (Media (Some 120000)), Play True,
                       MonitorTick (Some 2000, Some False), Seek True 90] init_player)"
proof -
  have h1: "is_loaded (audio_player two_minutes)"
    by (rule two_minutes_loaded)
  have h2: "run_within_track init_player
     [Load ''a.mp3'' (Media (Some 120000)), Play True, MonitorTick (Some 2000, Some False),
      Seek True 90]"
    by (simp add: adapter_defs init_player_def)
  have h3: "0 < duration (run [Load ''a.mp3'' (Media (Some 120000)), Play True,
                      MonitorTick (Some 2000, Some False), Seek True 90] init_player)"
    by (simp add: run_def adapter_defs init_player_def)
  show ?thesis
    using h1 h2 h3
      position_bound [of "audio_player two_minutes" 500
         "[Load ''a.mp3'' (Media (Some 120000)), Play True,
           MonitorTick (Some 2000, Some False), Seek True 90]"]
    by simp
qed

text \<open>On a track of 120 seconds a seek to 500 leaves the current position at 500.\<close>

theorem seek_past_the_end:
  "0 < duration (run [Load ''a.mp3'' (Media (Some 120000)), Seek True 500] init_player) \<and>
   duration (run [Load ''a.mp3'' (Media (Some 120000)), Seek True 500] init_player) <
   current_position (run [Load ''a.mp3'' (Media (Some 120000)), Seek True 500] init_player)"
  by (simp add: run_def adapter_defs init_player_def)

text \<open>
  C10. \<^verbatim>\<open>get_position\<close> never returns a negative value: it returns 0 when no file is
  loaded, and 0 when the engine reports a time that is not positive, such as \<open>-1\<close>.
\<close>

theorem get_position_nonneg:
  "0 \<le> get_position answer self \<and>
   (\<not> is_loaded self \<longrightarrow> get_position answer self = 0) \<and>
   (\<forall>position_ms. answer = Some position_ms \<and> position_ms \<le> 0 \<longrightarrow> get_position answer self = 0)"
  by (auto simp: get_position_def double_nonneg split: option.splits)

theorem get_position_nonneg_witness:
  "is_loaded (audio_player two_minutes) \<and> (- 1::int) \<le> 0 \<and>
   get_position (Some (- 1)) (audio_player two_minutes) = 0 \<and>
   \<not> is_loaded init_player \<and> get_position (Some 5000) init_player = 0"
proof -
  have h1: "is_loaded (audio_player two_minutes)"
    by (rule two_minutes_loaded)
  have h2: "\<not> is_loaded init_player" by (simp add: init_player_def)
  show ?thesis
    using h1 h2 get_position_nonneg [of "Some (- 1)" "audio_player two_minutes"]
      get_position_nonneg [of "Some 5000" init_player]
    by simp
qed

section \<open>The session controller\<close>

text \<open>
  C3, as the code has it. Opening a screen on a track whose saved position \<open>p\<close> is
  positive loads the track, starts playback and defers the restore. Whatever the
  monitoring thread does before, during and right after the restore, when it has run
  the engine has been told to play, to seek to \<open>int(p * 1000)\<close> milliseconds and to
  pause, in this order, the playing flag is clear and the paused flag is set. The
  adapter's \<^verbatim>\<open>current_position\<close> is \<open>p\<close> when no round of the monitor writes after the
  seek; the query \<^verbatim>\<open>get_position()\<close> returns the time the engine reports. When the saved
  position is 0 nothing is deferred and playback is not started. The track loads, the
  store answers and the engine accepts the calls.
\<close>

theorem resume_restore_sequence:
  assumes "get_position_db db path = Inr p"
  shows "(0 < p \<longrightarrow>
           (let s1 = load_audiobook (Media d) db True (init_screen path);
                s2 = s1\<lparr>audio_player := run (map MonitorTick before) (audio_player s1)\<rparr>;
                s3 = restore_position True True between late s2
            in after_queue s1 = [RestorePosition] \<and>
               engine_calls (audio_player s1) = [SetMedia path, EnginePlay] \<and>
               engine_calls (audio_player s3) =
                 [SetMedia path, EnginePlay, SetTime (py_int (fmul p 1000)), EnginePause] \<and>
               is_loaded (audio_player s3) \<and>
               \<not> is_playing (audio_player s3) \<and> is_paused (audio_player s3) \<and>
               \<not> screen_is_playing s3 \<and>
               (between = [] \<and> late = None \<longrightarrow> current_position (audio_player s3) = p) \<and>
               get_position (Some ms) (audio_player s3) =
                 (if 0 < ms then double (real_of_int ms / 1000) else 0))) \<and>
         (p = 0 \<longrightarrow>
           (let s1 = load_audiobook (Media d) db True (init_screen path)
            in after_queue s1 = [] \<and>
               engine_calls (audio_player s1) = [SetMedia path] \<and>
               is_loaded (audio_player s1) \<and>
               \<not> is_playing (audio_player s1) \<and> \<not> is_paused (audio_player s1) \<and>
               \<not> screen_is_playing s1))"
proof (intro conjI impI)
  assume pos: "0 < p"
  define s1 where "s1 = load_audiobook (Media d) db True (init_screen path)"
  define a where "a = run (map MonitorTick before) (audio_player s1)"
  define sought where "sought = run (map MonitorTick between) (set_position True p a)"
  define paused where "paused = pause True sought"
  define final where
    "final = (case late of
                None \<Rightarrow> paused
              | Some answer \<Rightarrow>
                  if monitor_live sought then monitor_playback_body answer paused else paused)"
  have q: "after_queue s1 = [RestorePosition]"
    and c: "engine_calls (audio_player s1) = [SetMedia path, EnginePlay]"
    and l: "is_loaded (audio_player s1)"
    and lp: "last_position s1 = Some p"
    using assms pos
    by (simp_all add: s1_def load_audiobook_def init_screen_def init_player_def load_file_def
                      play_def start_monitoring_def start_progress_update_def)
  have a: "is_loaded a" "engine_calls a = [SetMedia path, EnginePlay]"
    using monitor_rounds_keep [of before "audio_player s1"] l c by (simp_all add: a_def)
  have sk: "is_loaded (set_position True p a)"
    "engine_calls (set_position True p a) =
       [SetMedia path, EnginePlay, SetTime (py_int (fmul p 1000))]"
    "current_position (set_position True p a) = p"
    using a by (simp_all add: set_position_def)
  have so: "is_loaded sought"
    "engine_calls sought = [SetMedia path, EnginePlay, SetTime (py_int (fmul p 1000))]"
    using monitor_rounds_keep [of between "set_position True p a"] sk
    by (simp_all add: sought_def)
  have pa: "is_loaded paused" "\<not> is_playing paused" "is_paused paused"
    "engine_calls paused =
       [SetMedia path, EnginePlay, SetTime (py_int (fmul p 1000)), EnginePause]"
    using so by (simp_all add: paused_def pause_def)
  have fi: "is_loaded final \<and> \<not> is_playing final \<and> is_paused final \<and>
            engine_calls final =
              [SetMedia path, EnginePlay, SetTime (py_int (fmul p 1000)), EnginePause]"
    using pa monitor_body_keeps [of _ paused]
    by (simp add: final_def split: option.splits)
  have cp: "between = [] \<and> late = None \<longrightarrow> current_position final = p"
    using sk so by (simp add: final_def paused_def sought_def run_def pause_def)
  have gp: "get_position (Some ms) final = (if 0 < ms then double (real_of_int ms / 1000) else 0)"
    using fi by (simp add: get_position_def)
  have s3: "restore_position True True between late (s1\<lparr>audio_player := a\<rparr>) =
              s1\<lparr>audio_player := final, screen_is_playing := False, play_button := ''OUVIR''\<rparr>"
    unfolding final_def paused_def sought_def
    using lp by (simp add: restore_position_def Let_def)
  show "let s1 = load_audiobook (Media d) db True (init_screen path);
            s2 = s1\<lparr>audio_player := run (map MonitorTick before) (audio_player s1)\<rparr>;
            s3 = restore_position True True between late s2
        in after_queue s1 = [RestorePosition] \<and>
           engine_calls (audio_player s1) = [SetMedia path, EnginePlay] \<and>
           engine_calls (audio_player s3) =
             [SetMedia path, EnginePlay, SetTime (py_int (fmul p 1000)), EnginePause] \<and>
           is_loaded (audio_player s3) \<and>
           \<not> is_playing (audio_player s3) \<and> is_paused (audio_player s3) \<and>
           \<not> screen_is_playing s3 \<and>
           (between = [] \<and> late = None \<longrightarrow> current_position (audio_player s3) = p) \<and>
           get_position (Some ms) (audio_player s3) =
             (if 0 < ms then double (real_of_int ms / 1000) else 0)"
    unfolding Let_def s1_def [symmetric] a_def [symmetric] s3
    using q c fi cp gp by simp
next
  assume "p = 0"
  then show "let s1 = load_audiobook (Media d) db True (init_screen path)
             in after_queue s1 = [] \<and>
                engine_calls (audio_player s1) = [SetMedia path] \<and>
                is_loaded (audio_player s1) \<and>
                \<not> is_playing (audio_player s1) \<and> \<not> is_paused (audio_player s1) \<and>
                \<not> screen_is_playing s1"
    using assms
    by (simp add: load_audiobook_def init_screen_def init_player_def load_file_def
                  start_progress_update_def)
qed

theorem resume_restore_sequence_witness:
  "get_position_db bookmarked_db ''a.mp3'' = Inr 45 \<and> (0::real) < 45 \<and>
   (let s1 = load_audiobook (Media (Some 120000)) bookmarked_db True (init_screen ''a.mp3'');
        s2 = s1\<lparr>audio_player :=
                  run (map MonitorTick [(Some 100, Some False), (Some 200, Some False)])
                      (audio_player s1)\<rparr>;
        s3 = restore_position True True [] None s2
    in after_queue s1 = [RestorePosition] \<and>
       engine_calls (audio_player s3) =
         [SetMedia ''a.mp3'', EnginePlay, SetTime 45000, EnginePause] \<and>
       current_position (audio_player s3) = 45 \<and>
       \<not> is_playing (audio_player s3) \<and> is_paused (audio_player s3))"
proof -
  have h: "get_position_db bookmarked_db ''a.mp3'' = Inr 45"
    by (simp add: get_position_db_def get_connection_def fetchone_def bookmarked_db_def)
  have t: "py_int (fmul 45 1000) = 45000"
    by (simp add: py_int_def fmul_def)
  show ?thesis
    using h t resume_restore_sequence
                [OF h, of "Some 120000" "[(Some 100, Some False), (Some 200, Some False)]"
                   "[]" None]
    by (simp add: Let_def)
qed

text \<open>With 45 seconds saved, a round of the monitor that reads 46 seconds from the
  engine between the seek and the pause leaves the session paused at 46, not at 45.\<close>

theorem restore_overtaken_by_monitor:
  "get_position_db bookmarked_db ''a.mp3'' = Inr 45 \<and>
   is_paused (audio_player overtaken) \<and> \<not> is_playing (audio_player overtaken) \<and>
   current_position (audio_player overtaken) = 46 \<and>
   current_position (audio_player overtaken) \<noteq> 45"
  by (simp add: overtaken_def resumed_def restore_position_def Let_def run_def
                load_audiobook_def init_screen_def init_player_def load_file_def
                get_position_db_def get_connection_def fetchone_def bookmarked_db_def
                start_progress_update_def play_def start_monitoring_def
                set_position_def pause_def monitor_playback_tick_def
                monitor_playback_body_def get_position_def get_duration_of_def)

text \<open>
  C7, as the code has it. On a loaded session, with \<open>p\<close> the position read from the
  engine (never negative), \<open>d\<close> the duration, and sums and differences as the float
  operations the code performs: \<^verbatim>\<open>skip_forward\<close> sets the current position to \<open>p + 30\<close> if
  \<open>p + 30 < d\<close> and to \<open>max (d - 1) 0\<close> otherwise, which differs from \<open>d\<close> whenever
  \<open>0 < d \<le> 2 ^ 53\<close>; \<^verbatim>\<open>skip_backward\<close> sets it to \<open>max (p - 30) 0\<close>.
\<close>

theorem skip_formulas:
  assumes "is_loaded (audio_player self)"
  shows "(let p = get_position time_ms (audio_player self);
              d = duration (audio_player self);
              forward = current_position (audio_player (skip_forward time_ms True self));
              backward = current_position (audio_player (skip_backward time_ms True self))
          in 0 \<le> p \<and>
             forward = (if fadd p 30 < d then fadd p 30 else max (fsub d 1) 0) \<and>
             (0 < d \<and> d \<le> 2 ^ 53 \<longrightarrow> forward \<noteq> d) \<and>
             backward = max (fsub p 30) 0)"
proof -
  define p where "p = get_position time_ms (audio_player self)"
  define d where "d = duration (audio_player self)"
  define forward where
    "forward = current_position (audio_player (skip_forward time_ms True self))"
  define backward where
    "backward = current_position (audio_player (skip_backward time_ms True self))"
  have p0: "0 \<le> p"
    by (auto simp: p_def get_position_def double_nonneg split: option.splits)
  have f: "forward = (if fadd p 30 < d then fadd p 30 else max (fsub d 1) 0)"
    using assms
    by (auto simp: forward_def p_def d_def Let_def skip_forward_def set_position_def
                   get_duration_def)
  have b: "backward = max (fsub p 30) 0"
    using assms
    by (simp add: backward_def p_def Let_def skip_backward_def set_position_def)
  have n: "0 < d \<and> d \<le> 2 ^ 53 \<longrightarrow> forward \<noteq> d"
  proof
    assume r: "0 < d \<and> d \<le> 2 ^ 53"
    show "forward \<noteq> d"
    proof (cases "fadd p 30 < d")
      case True
      then show ?thesis using f by simp
    next
      case False
      have m: "max (fsub d 1) 0 < d" using r by (intro clamp_below_duration) simp_all
      have "forward = max (fsub d 1) 0" using f False by simp
      with m have "forward < d" by (simp only:)
      then show ?thesis by simp
    qed
  qed
  show ?thesis
    unfolding Let_def p_def [symmetric] d_def [symmetric] forward_def [symmetric]
      backward_def [symmetric]
    using p0 f n b by simp
qed

theorem skip_formulas_witness:
  "is_loaded (audio_player two_minutes) \<and> (0::real) < 120 \<and> (120::real) \<le> 2 ^ 53 \<and>
   current_position (audio_player (skip_forward (Some 100000) True two_minutes)) = 119 \<and>
   current_position (audio_player (skip_forward (Some 100000) True two_minutes)) \<noteq> 120 \<and>
   current_position (audio_player (skip_backward (Some 100000) True two_minutes)) = 70"
proof -
  have h: "is_loaded (audio_player two_minutes)"
    by (rule two_minutes_loaded)
  have g: "get_position (Some 100000) (audio_player two_minutes) = 100"
    using h by (simp add: get_position_def)
  have d: "duration (audio_player two_minutes) = 120"
    by (rule two_minutes_duration)
  show ?thesis
    using h g d skip_formulas [OF h, of "Some 100000"]
    by (simp add: Let_def fadd_def fsub_def)
qed

text \<open>On a loaded track of unknown duration (\<open>d = 0\<close>) at position 0, \<^verbatim>\<open>skip_forward\<close>
  sets the position to 0, which is exactly \<open>d\<close>.\<close>

theorem skip_forward_unknown_duration:
  "is_loaded (audio_player unknown_length) \<and>
   get_position (Some 0) (audio_player unknown_length) = 0 \<and>
   duration (audio_player unknown_length) = 0 \<and>
   current_position (audio_player (skip_forward (Some 0) True unknown_length)) =
     duration (audio_player unknown_length)"
  by (simp add: unknown_length_def screen_defs empty_db_def
                skip_forward_def get_position_def get_duration_def
                get_duration_of_def set_position_def fadd_def fsub_def Let_def)

text \<open>Thirty seconds before the end of a track of 31.013 seconds, at 1.013 seconds, the
  sum rounds below the duration: \<^verbatim>\<open>skip_forward\<close> does not clamp and sets the position
  to the sum, between \<open>d - 1\<close> and \<open>d\<close>.\<close>

lemma skip_forward_near_the_end:
  "duration (audio_player near_the_end) = double (31013 / 1000) \<and>
   get_position (Some 1013) (audio_player near_the_end) = double (1013 / 1000) \<and>
   current_position (audio_player (skip_forward (Some 1013) True near_the_end)) =
     fadd (double (1013 / 1000)) 30 \<and>
   duration (audio_player near_the_end) - 1 <
     current_position (audio_player (skip_forward (Some 1013) True near_the_end)) \<and>
   current_position (audio_player (skip_forward (Some 1013) True near_the_end)) <
     duration (audio_player near_the_end)"
proof -
  have l: "is_loaded (audio_player near_the_end)"
    and d: "duration (audio_player near_the_end) = double (31013 / 1000)"
    by (simp_all add: near_the_end_def screen_defs empty_db_def get_duration_of_def)
  have g: "get_position (Some 1013) (audio_player near_the_end) = double (1013 / 1000)"
    using l by (simp add: get_position_def)
  have c: "current_position (audio_player (skip_forward (Some 1013) True near_the_end)) =
             fadd (double (1013 / 1000)) 30"
    using l d g thirty_before_the_end
    by (simp add: skip_forward_def Let_def get_duration_def set_position_def)
  show ?thesis
    unfolding d g c by (simp add: position_1013 duration_31013 sum_1013_30)
qed

text \<open>
  C8, as the code has it. A round of the screen's poller on a loaded session reads the
  position and the duration; when the duration is positive it reports exactly
  (current, duration, current / duration * 100) to the interface, the quotient and the
  product being the float operations of the code; when it is not, it reports nothing
  and the progress variable keeps its value. For a position of 30 and a duration of 120
  the progress reported is 25.
\<close>

theorem progress_reported:
  assumes "is_loaded (audio_player self)" and "\<not> stop_update self"
  shows "(0 < duration (audio_player self) \<longrightarrow>
            progress_report time_ms self =
              [(get_position time_ms (audio_player self), duration (audio_player self),
                fmul (fdiv (get_position time_ms (audio_player self))
                           (duration (audio_player self))) 100)]) \<and>
         (\<not> 0 < duration (audio_player self) \<longrightarrow>
            progress_report time_ms self = [] \<and>
            progress_var (update_progress_tick time_ms self) = progress_var self) \<and>
         (get_position time_ms (audio_player self) = 30 \<and> duration (audio_player self) = 120 \<longrightarrow>
            progress_report time_ms self = [(30, 120, 25)])"
proof -
  show ?thesis
    using assms
    by (auto simp: progress_report_def update_progress_tick_def is_file_loaded_def
                   get_duration_def Let_def quarter_progress)
qed

theorem progress_reported_witness:
  "is_loaded (audio_player two_minutes) \<and> \<not> stop_update two_minutes \<and>
   progress_report (Some 30000) two_minutes = [(30, 120, 25)]"
proof -
  have h1: "is_loaded (audio_player two_minutes)"
    by (rule two_minutes_loaded)
  have h2: "\<not> stop_update two_minutes"
    by (simp add: two_minutes_def screen_defs empty_db_def)
  have g: "get_position (Some 30000) (audio_player two_minutes) = 30"
    using h1 by (simp add: get_position_def)
  have d: "duration (audio_player two_minutes) = 120"
    by (rule two_minutes_duration)
  show ?thesis
    using h1 h2 g d progress_reported [OF h1 h2, of "Some 30000"]
    by (simp add: quarter_progress)
qed

text \<open>On a loaded track of unknown duration a round of the poller reports nothing, so no
  progress of 0 reaches the interface.\<close>

theorem no_report_without_duration:
  "is_loaded (audio_player unknown_length) \<and> \<not> stop_update unknown_length \<and>
   duration (audio_player unknown_length) = 0 \<and>
   progress_report (Some 5000) unknown_length = []"
  by (simp add: unknown_length_def screen_defs empty_db_def
                progress_report_def update_progress_tick_def
                is_file_loaded_def get_position_def get_duration_def get_duration_of_def)

end
